theory Spec2Isabelle
  imports Main
begin

section \<open>The Snowflake logging handler (backend/snowflake\_logger.py)\<close>

text \<open>
  A shallow embedding of the class \<open>SnowflakeHandler\<close>. The handler object is a record that
  every method takes and returns. What a method does to the outside (the connector, the
  logging module, \<open>time.sleep\<close>) is returned as a list of effects, in the order of the calls.
  What the outside answers (whether \<open>connect\<close>, \<open>cursor\<close>, \<open>executemany\<close> raise, what
  \<open>time.time()\<close> reads, which records producers submit) is an argument. Time stamps are of
  an arbitrary type \<open>'t\<close> with a subtraction and an order, so nothing depends on how the
  floating-point subtraction rounds.
\<close>

subsection \<open>Exceptions\<close>

datatype exn =
    ImportError string
  | ValueError string
  | TypeError string
  | Full
  | Empty
  | SinkError string

subsection \<open>Log records and rows\<close>

text \<open>
  A \<open>logging.LogRecord\<close>, by what the handler reads of it. \<open>getMessage\<close> is the outcome of
  the method \<open>record.getMessage()\<close>, which computes \<open>str(msg) % args\<close> and raises when the
  arguments do not fit the format (as for \<open>logging.info("%d", "abc")\<close>). \<open>exc_info\<close> is
  \<open>None\<close> or the triple read at lines 163 to 165: the name of \<open>exc_info[0]\<close> when it is
  set, \<open>str(exc_info[1])\<close> when it is set, and the formatted traceback. \<open>dict_items\<close> is
  \<open>record.__dict__.items()\<close>, each value by the outcome of \<open>str(value)\<close> (\<open>None\<close> when
  \<open>str\<close> raises).
\<close>

record 't LogRecord =
  name :: string
  levelname :: string
  created :: 't
  getMessage :: "exn + string"
  exc_info :: "(string option \<times> string option \<times> string) option"
  process :: "int option"
  threadName :: "string option"
  agent_id :: "string option"
  endpoint :: "string option"
  execution_context :: "string option"
  dict_items :: "(string \<times> string option) list"

text \<open>
  The value of the column \<open>metadata\<close>: \<open>None\<close>, the dictionary built by \<open>_format_record\<close>,
  or (\<open>MJson m\<close>) the text \<open>json.dumps(m)\<close> that \<open>_flush_batch\<close> puts in its place.
\<close>

datatype meta = MNone | MDict "(string \<times> string) list" | MJson meta

fun meta_truthy :: "meta \<Rightarrow> bool" where
  "meta_truthy MNone = False"
| "meta_truthy (MDict d) = (d \<noteq> [])"
| "meta_truthy (MJson m) = True"

record 't row =
  log_timestamp :: 't
  level :: string
  logger_name :: string
  message :: string
  row_agent_id :: "string option"
  row_endpoint :: "string option"
  row_execution_context :: "string option"
  exception_type :: "string option"
  exception_message :: "string option"
  stack_trace :: "string option"
  metadata :: meta
  host :: string
  process_id :: "int option"
  thread_name :: "string option"

subsection \<open>queue.Queue\<close>

text \<open>
  Python's \<open>queue.Queue\<close>: \<open>maxsize <= 0\<close> means no bound. \<open>put_nowait\<close> raises \<open>Full\<close>
  only when \<open>maxsize > 0\<close> and the queue holds \<open>maxsize\<close> items. \<open>get(timeout=1.0)\<close> returns
  the oldest item, or raises \<open>Empty\<close> when none arrived within the wait; the records that
  producers put during the wait are put before \<open>get_timeout\<close> is applied.
\<close>

record 'a Queue =
  maxsize :: int
  items :: "'a list"
  unfinished_tasks :: int

definition new_Queue :: "int \<Rightarrow> 'a Queue" where
  "new_Queue m = \<lparr>maxsize = m, items = [], unfinished_tasks = 0\<rparr>"

definition put_nowait :: "'a Queue \<Rightarrow> 'a \<Rightarrow> exn + 'a Queue" where
  "put_nowait q x =
     (if maxsize q > 0 \<and> int (length (items q)) \<ge> maxsize q then Inl Full
      else Inr (q\<lparr>items := items q @ [x], unfinished_tasks := unfinished_tasks q + 1\<rparr>))"

definition get_timeout :: "'a Queue \<Rightarrow> exn + ('a \<times> 'a Queue)" where
  "get_timeout q =
     (case items q of
        [] \<Rightarrow> Inl Empty
      | x # xs \<Rightarrow> Inr (x, q\<lparr>items := xs\<rparr>))"

definition task_done :: "'a Queue \<Rightarrow> exn + 'a Queue" where
  "task_done q =
     (let unfinished = unfinished_tasks q - 1 in
      if unfinished < 0 then Inl (ValueError ''task_done() called too many times'')
      else Inr (q\<lparr>unfinished_tasks := unfinished\<rparr>))"

subsection \<open>The handler object and its effects\<close>

type_synonym conn = nat

record 't config =
  account :: string
  user :: string
  password :: "string option"
  token :: "string option"
  database :: string
  schema :: string
  warehouse :: string
  role :: "string option"
  batch_size :: int
  flush_interval :: 't
  table_name :: string

record 't SnowflakeHandler = "'t config" +
  log_queue :: "'t LogRecord Queue"
  connection :: "conn option"
  batch :: "'t row list"
  running :: bool
  worker_thread :: "unit option"
  hostname :: string

datatype log_level = DEBUG | INFO | WARNING | ERROR

text \<open>The messages of the handler's own calls of the logging module, by their arguments.\<close>

datatype log_msg =
    Connected string string string
  | ConnectFailed exn
  | WorkerStarted
  | WorkerError exn
  | CannotFlush nat
  | Flushed nat
  | FlushFailed exn

text \<open>
  The calls that leave the handler: \<open>snowflake.connector.connect(**conn_params)\<close>,
  \<open>connection.cursor()\<close>, \<open>cursor.executemany(insert_sql, batch)\<close> (the statement is fixed
  but for the table name), \<open>cursor.close()\<close>, a call of the logging module,
  \<open>time.sleep(n)\<close>, and the start of the worker thread.
\<close>

datatype 't effect =
    Connect "(string \<times> string) list"
  | Cursor conn
  | ExecuteMany conn string "'t row list"
  | CursorClose conn
  | Log log_level log_msg
  | Sleep nat
  | ThreadStart

text \<open>What the sink answers to the calls of one flush (each is made at most once in it).\<close>

record sink =
  connect_result :: "exn + conn"
  cursor_result :: "exn option"
  executemany_result :: "exn option"
  cursor_close_result :: "exn option"

text \<open>Truth value of an \<open>Optional[str]\<close>: \<open>None\<close> and the empty string are false.\<close>

fun truthy :: "string option \<Rightarrow> bool" where
  "truthy None = False"
| "truthy (Some s) = (s \<noteq> [])"

definition startswith :: "string \<Rightarrow> string \<Rightarrow> bool" where
  "startswith s p = (take (length p) s = p)"

subsection \<open>\_connect, \_start\_worker and \_\_init\_\_\<close>

definition conn_params :: "('t, 'm) SnowflakeHandler_scheme \<Rightarrow> (string \<times> string) list" where
  "conn_params h =
     [(''account'', account h), (''user'', user h), (''database'', database h),
      (''schema'', schema h), (''warehouse'', warehouse h)]
     @ (if truthy (token h) then [(''token'', the (token h)), (''authenticator'', ''oauth'')]
        else if truthy (password h) then [(''password'', the (password h))]
        else [])
     @ (if truthy (role h) then [(''role'', the (role h))] else [])"

definition handler_connect ::
  "sink \<Rightarrow> 't SnowflakeHandler \<Rightarrow> 't SnowflakeHandler \<times> 't effect list" where
  "handler_connect snk h =
     (case connect_result snk of
        Inr c \<Rightarrow>
          (h\<lparr>connection := Some c\<rparr>,
           [Connect (conn_params h),
            Log INFO (Connected (if truthy (token h) then ''PAT'' else ''password'')
                                (database h) (schema h))])
      | Inl e \<Rightarrow>
          (h\<lparr>connection := None\<rparr>,
           [Connect (conn_params h), Log ERROR (ConnectFailed e)]))"

definition start_worker :: "'t SnowflakeHandler \<Rightarrow> 't SnowflakeHandler \<times> 't effect list" where
  "start_worker h =
     (h\<lparr>running := True, worker_thread := Some ()\<rparr>, [ThreadStart, Log INFO WorkerStarted])"

text \<open>
  \<open>__init__\<close>: \<open>available\<close> is the module's \<open>SNOWFLAKE_AVAILABLE\<close>, \<open>gethostname\<close> the value
  of \<open>socket.gethostname()\<close>, \<open>snk\<close> what the first \<open>connect\<close> answers.
\<close>

definition init ::
  "bool \<Rightarrow> 't config \<Rightarrow> string \<Rightarrow> sink \<Rightarrow> exn + ('t SnowflakeHandler \<times> 't effect list)" where
  "init available cfg gethostname snk =
     (if \<not> available then Inl (ImportError ''snowflake-connector-python is not installed'')
      else if \<not> truthy (password cfg) \<and> \<not> truthy (token cfg)
        then Inl (ValueError ''Either password or token must be provided'')
      else
        (let h = \<lparr>account = account cfg, user = user cfg, password = password cfg,
                  token = token cfg, database = database cfg, schema = schema cfg,
                  warehouse = warehouse cfg, role = role cfg,
                  batch_size = batch_size cfg, flush_interval = flush_interval cfg,
                  table_name = table_name cfg,
                  log_queue = new_Queue 0, connection = None, batch = [],
                  running = False, worker_thread = None, hostname = gethostname\<rparr>;
             c = handler_connect snk h;
             w = start_worker (fst c)
         in Inr (fst w, snd c @ snd w)))"

subsection \<open>emit\<close>

text \<open>
  \<open>logging.Handler.handleError\<close> writes the traceback to \<open>sys.stderr\<close> and returns; it
  changes nothing of the handler.
\<close>

definition handleError :: "'t SnowflakeHandler \<Rightarrow> 't LogRecord \<Rightarrow> exn + 't SnowflakeHandler" where
  "handleError h r = Inr h"

text \<open>The body of the \<open>try\<close> of \<open>emit\<close>, then \<open>emit\<close> with its two \<open>except\<close> clauses.\<close>

definition emit_try :: "'t SnowflakeHandler \<Rightarrow> 't LogRecord \<Rightarrow> exn + 't SnowflakeHandler" where
  "emit_try h r =
     (if startswith (name r) ''snowflake'' then Inr h
      else (case put_nowait (log_queue h) r of
              Inl e \<Rightarrow> Inl e
            | Inr q \<Rightarrow> Inr (h\<lparr>log_queue := q\<rparr>)))"

definition emit :: "'t SnowflakeHandler \<Rightarrow> 't LogRecord \<Rightarrow> exn + 't SnowflakeHandler" where
  "emit h r =
     (case emit_try h r of
        Inr h' \<Rightarrow> Inr h'
      | Inl Full \<Rightarrow> Inr h
      | Inl e \<Rightarrow> handleError h r)"

text \<open>A producer that submits the records of a list one after the other, the worker not running.\<close>

fun emit_all :: "'t SnowflakeHandler \<Rightarrow> 't LogRecord list \<Rightarrow> exn + 't SnowflakeHandler" where
  "emit_all h [] = Inr h"
| "emit_all h (r # rs) = (case emit h r of Inl e \<Rightarrow> Inl e | Inr h' \<Rightarrow> emit_all h' rs)"

subsection \<open>\_format\_record\<close>

definition standard_keys :: "string list" where
  "standard_keys =
     [''name'', ''msg'', ''args'', ''created'', ''filename'', ''funcName'',
      ''levelname'', ''levelno'', ''lineno'', ''module'', ''msecs'',
      ''message'', ''pathname'', ''process'', ''processName'', ''relativeCreated'',
      ''thread'', ''threadName'', ''exc_info'', ''exc_text'', ''stack_info'',
      ''agent_id'', ''endpoint'', ''execution_context'']"

fun build_metadata :: "(string \<times> string option) list \<Rightarrow> (string \<times> string) list" where
  "build_metadata [] = []"
| "build_metadata ((k, v) # kvs) =
     (if k \<notin> set standard_keys
      then (case v of Some s \<Rightarrow> (k, s) # build_metadata kvs | None \<Rightarrow> build_metadata kvs)
      else build_metadata kvs)"

definition format_record :: "('t, 'm) SnowflakeHandler_scheme \<Rightarrow> 't LogRecord \<Rightarrow> exn + 't row" where
  "format_record h r =
     (let exception_type' = (case exc_info r of None \<Rightarrow> None | Some (ty, v, tb) \<Rightarrow> ty);
          exception_message' = (case exc_info r of None \<Rightarrow> None | Some (ty, v, tb) \<Rightarrow> v);
          stack_trace' = (case exc_info r of None \<Rightarrow> None | Some (ty, v, tb) \<Rightarrow> Some tb);
          metadata' = build_metadata (dict_items r)
      in case getMessage r of
           Inl e \<Rightarrow> Inl e
         | Inr m \<Rightarrow>
             Inr \<lparr>log_timestamp = created r, level = levelname r, logger_name = name r,
                  message = m, row_agent_id = agent_id r, row_endpoint = endpoint r,
                  row_execution_context = execution_context r,
                  exception_type = exception_type', exception_message = exception_message',
                  stack_trace = stack_trace',
                  metadata = (if metadata' \<noteq> [] then MDict metadata' else MNone),
                  host = hostname h, process_id = process r, thread_name = threadName r\<rparr>)"

subsection \<open>\_flush\_batch\<close>

text \<open>The loop of lines 235 to 238: a row whose metadata is true gets its JSON text.\<close>

definition dump_metadata :: "'t row \<Rightarrow> 't row" where
  "dump_metadata rw = (if meta_truthy (metadata rw) then rw\<lparr>metadata := MJson (metadata rw)\<rparr> else rw)"

text \<open>
  The \<open>try\<close> block of \<open>_flush_batch\<close> on the connection \<open>c\<close>: the exception that leaves it,
  if any, and the calls made up to there.
\<close>

definition flush_try ::
  "sink \<Rightarrow> conn \<Rightarrow> 't SnowflakeHandler \<Rightarrow> exn option \<times> 't effect list" where
  "flush_try snk c h =
     (case cursor_result snk of
        Some e \<Rightarrow> (Some e, [Cursor c])
      | None \<Rightarrow>
          (let rows = map dump_metadata (batch h) in
           case executemany_result snk of
             Some e \<Rightarrow> (Some e, [Cursor c, ExecuteMany c (table_name h) rows])
           | None \<Rightarrow>
               (case cursor_close_result snk of
                  Some e \<Rightarrow> (Some e, [Cursor c, ExecuteMany c (table_name h) rows, CursorClose c])
                | None \<Rightarrow>
                    (None, [Cursor c, ExecuteMany c (table_name h) rows, CursorClose c,
                            Log DEBUG (Flushed (length (batch h)))]))))"

text \<open>The part of \<open>_flush_batch\<close> from line 216 on, reached with a connection.\<close>

definition flush_connected ::
  "sink \<Rightarrow> conn \<Rightarrow> 't SnowflakeHandler \<Rightarrow> 't SnowflakeHandler \<times> 't effect list" where
  "flush_connected snk c h =
     (case flush_try snk c h of
        (None, effs) \<Rightarrow> (h\<lparr>batch := []\<rparr>, effs)
      | (Some e, effs) \<Rightarrow>
          (h\<lparr>batch := [], connection := None\<rparr>, effs @ [Log ERROR (FlushFailed e)]))"

definition flush_batch ::
  "sink \<Rightarrow> 't SnowflakeHandler \<Rightarrow> 't SnowflakeHandler \<times> 't effect list" where
  "flush_batch snk h =
     (if batch h = [] then (h, [])
      else
        (case connection h of
           Some c \<Rightarrow> flush_connected snk c h
         | None \<Rightarrow>
             (let hc = handler_connect snk h in
              case connection (fst hc) of
                None \<Rightarrow>
                  ((fst hc)\<lparr>batch := []\<rparr>,
                   snd hc @ [Log WARNING (CannotFlush (length (batch (fst hc))))])
              | Some c \<Rightarrow>
                  (let f = flush_connected snk c (fst hc) in (fst f, snd hc @ snd f)))))"

subsection \<open>\_worker\<close>

text \<open>
  What the outside does during one iteration of the loop: the records producers submit
  before the \<open>get\<close> returns, the reading of \<open>time.time()\<close> at line 140, and the answers of
  the sink to a flush.
\<close>

record 't tick =
  arrivals :: "'t LogRecord list"
  now :: 't
  sink_of :: sink

text \<open>The condition of lines 141 to 144.\<close>

definition should_flush :: "'t::{minus,ord} SnowflakeHandler \<Rightarrow> 't \<Rightarrow> 't \<Rightarrow> bool" where
  "should_flush h current_time last_flush =
     (int (length (batch h)) \<ge> batch_size h
      \<or> (batch h \<noteq> [] \<and> current_time - last_flush \<ge> flush_interval h))"

text \<open>
  Lines 133 to 135: the exception raised there, if any, with the handler as it is at that
  point (a record taken from the queue stays taken when formatting it raises).
\<close>

definition dequeue_step :: "'t SnowflakeHandler \<Rightarrow> exn option \<times> 't SnowflakeHandler" where
  "dequeue_step h =
     (case get_timeout (log_queue h) of
        Inl e \<Rightarrow> (Some e, h)
      | Inr (r, q) \<Rightarrow>
          (case format_record h r of
             Inl e \<Rightarrow> (Some e, h\<lparr>log_queue := q\<rparr>)
           | Inr rw \<Rightarrow>
               (case task_done q of
                  Inl e \<Rightarrow> (Some e, h\<lparr>log_queue := q, batch := batch h @ [rw]\<rparr>)
                | Inr q' \<Rightarrow> (None, h\<lparr>log_queue := q', batch := batch h @ [rw]\<rparr>))))"

text \<open>Lines 140 to 148, on the handler and the local variable \<open>last_flush\<close>.\<close>

definition flush_check ::
  "'t::{minus,ord} tick \<Rightarrow> 't SnowflakeHandler \<times> 't \<Rightarrow>
     ('t SnowflakeHandler \<times> 't) \<times> 't effect list" where
  "flush_check t s =
     (if should_flush (fst s) (now t) (snd s)
      then (let f = flush_batch (sink_of t) (fst s) in ((fst f, now t), snd f))
      else (s, []))"

text \<open>
  The outer \<open>try\<close> block of one iteration (lines 131 to 148): the inner \<open>except queue.Empty\<close>
  lets the iteration go on, any other exception leaves the block.
\<close>

definition worker_try ::
  "'t::{minus,ord} tick \<Rightarrow> 't SnowflakeHandler \<times> 't \<Rightarrow>
     exn option \<times> ('t SnowflakeHandler \<times> 't) \<times> 't effect list" where
  "worker_try t s =
     (case dequeue_step (fst s) of
        (None, h1) \<Rightarrow> (None, flush_check t (h1, snd s))
      | (Some Empty, h1) \<Rightarrow> (None, flush_check t (h1, snd s))
      | (Some e, h1) \<Rightarrow> (Some e, (h1, snd s), []))"

text \<open>One iteration with its \<open>except Exception\<close>: log the error and sleep one second.\<close>

definition worker_iteration ::
  "'t::{minus,ord} tick \<Rightarrow> 't SnowflakeHandler \<times> 't \<Rightarrow>
     ('t SnowflakeHandler \<times> 't) \<times> 't effect list" where
  "worker_iteration t s =
     (case worker_try t s of
        (None, s', effs) \<Rightarrow> (s', effs)
      | (Some e, s', effs) \<Rightarrow> (s', effs @ [Log ERROR (WorkerError e), Sleep 1]))"

text \<open>
  The records that producers submit during an iteration go through \<open>emit\<close>; an
  exception of \<open>emit\<close> would be the producer's and leaves the handler as it is.
\<close>

fun submit_arrivals :: "'t SnowflakeHandler \<Rightarrow> 't LogRecord list \<Rightarrow> 't SnowflakeHandler" where
  "submit_arrivals h [] = h"
| "submit_arrivals h (r # rs) =
     (case emit h r of Inl e \<Rightarrow> submit_arrivals h rs | Inr h' \<Rightarrow> submit_arrivals h' rs)"

text \<open>
  The loop \<open>while self.running\<close>, run on the ticks of a list. \<open>Exited\<close>: the loop has found
  \<open>running\<close> false and returned. \<open>Looping\<close>: the list is used up with the loop still going
  (the loop itself has no bound). Only \<open>close\<close>, on another thread, sets \<open>running\<close> to
  false (line 277); no tick contains it, so the ticks describe the worker of a handler
  that is not being closed.
\<close>

datatype 't loop_result =
    Exited "'t SnowflakeHandler \<times> 't" "'t effect list"
  | Looping "'t SnowflakeHandler \<times> 't" "'t effect list"

fun worker_loop ::
  "'t::{minus,ord} tick list \<Rightarrow> 't SnowflakeHandler \<times> 't \<Rightarrow> 't effect list \<Rightarrow> 't loop_result" where
  "worker_loop [] s effs =
     (if \<not> running (fst s) then Exited s effs else Looping s effs)"
| "worker_loop (t # ts) s effs =
     (if \<not> running (fst s) then Exited s effs
      else (let s1 = (submit_arrivals (fst s) (arrivals t), snd s);
                it = worker_iteration t s1
            in worker_loop ts (fst it) (effs @ snd it)))"

text \<open>Whether an effect is a call of \<open>executemany\<close>.\<close>

fun is_executemany :: "'t effect \<Rightarrow> bool" where
  "is_executemany (ExecuteMany c tbl rows) = True"
| "is_executemany _ = False"

subsection \<open>Concrete handlers, records and sinks\<close>

text \<open>
  The configuration of a handler with a password only, and one with a password and a token;
  the handler that \<open>__init__\<close> builds from the first on a host \<open>host1\<close> whose sink accepts
  the connection.
\<close>

definition example_config :: "int config" where
  "example_config =
     \<lparr>account = ''acct'', user = ''svc'', password = Some ''pw'', token = None,
      database = ''LOG_DB'', schema = ''RAW'', warehouse = ''LOG_WH'', role = None,
      batch_size = 100, flush_interval = 5, table_name = ''app_logs''\<rparr>"

definition both_config :: "int config" where
  "both_config = example_config\<lparr>token := Some ''tok''\<rparr>"

definition neither_config :: "int config" where
  "neither_config = example_config\<lparr>password := None\<rparr>"

definition started_handler :: "int SnowflakeHandler" where
  "started_handler =
     \<lparr>account = ''acct'', user = ''svc'', password = Some ''pw'', token = None,
      database = ''LOG_DB'', schema = ''RAW'', warehouse = ''LOG_WH'', role = None,
      batch_size = 100, flush_interval = 5, table_name = ''app_logs'',
      log_queue = new_Queue 0, connection = Some 1, batch = [],
      running = True, worker_thread = Some (), hostname = ''host1''\<rparr>"

definition healthy_sink :: sink where
  "healthy_sink =
     \<lparr>connect_result = Inr 1, cursor_result = None, executemany_result = None,
      cursor_close_result = None\<rparr>"

definition failing_sink :: sink where
  "failing_sink = healthy_sink\<lparr>executemany_result := Some (SinkError ''insert failed'')\<rparr>"

definition unreachable_sink :: sink where
  "unreachable_sink = healthy_sink\<lparr>connect_result := Inl (SinkError ''no route to host'')\<rparr>"

text \<open>
  A record of the logger \<open>n\<close>, logged by process 4242 on its main thread; the same record
  logged by process 7 on the thread \<open>producer-3\<close>; and the record of
  \<open>logging.info("%d", "abc")\<close>, whose \<open>getMessage()\<close> raises.
\<close>

definition example_record :: "string \<Rightarrow> int LogRecord" where
  "example_record n =
     \<lparr>name = n, levelname = ''INFO'', created = 0, getMessage = Inr ''hello'',
      exc_info = None, process = Some 4242, threadName = Some ''MainThread'',
      agent_id = None, endpoint = None, execution_context = None, dict_items = []\<rparr>"

definition other_thread_record :: "int LogRecord" where
  "other_thread_record =
     (example_record ''app'')\<lparr>process := Some 7, threadName := Some ''producer-3''\<rparr>"

definition bad_record :: "int LogRecord" where
  "bad_record =
     (example_record ''app'')
       \<lparr>getMessage := Inl (TypeError ''%d format: a real number is required, not str'')\<rparr>"

definition example_row :: "int row" where
  "example_row =
     \<lparr>log_timestamp = 0, level = ''INFO'', logger_name = ''app'', message = ''hello'',
      row_agent_id = None, row_endpoint = None, row_execution_context = None,
      exception_type = None, exception_message = None, stack_trace = None,
      metadata = MNone, host = ''host1'', process_id = Some 4242,
      thread_name = Some ''MainThread''\<rparr>"

text \<open>
  The started handler with one row waiting; the same after a failed flush has dropped its
  connection; the same with the bad record queued behind the waiting row; and a handler
  whose queue (which \<open>__init__\<close> never builds) has the bound 3 and holds 3 records.
\<close>

definition loaded_handler :: "int SnowflakeHandler" where
  "loaded_handler = started_handler\<lparr>batch := [example_row]\<rparr>"

definition disconnected_handler :: "int SnowflakeHandler" where
  "disconnected_handler = loaded_handler\<lparr>connection := None\<rparr>"

definition stale_handler :: "int SnowflakeHandler" where
  "stale_handler =
     loaded_handler\<lparr>log_queue := \<lparr>maxsize = 0, items = [bad_record], unfinished_tasks = 1\<rparr>\<rparr>"

definition full_handler :: "int SnowflakeHandler" where
  "full_handler =
     started_handler
       \<lparr>log_queue :=
          \<lparr>maxsize = 3,
           items = [example_record ''a'', example_record ''b'', example_record ''c''],
           unfinished_tasks = 3\<rparr>\<rparr>"

text \<open>The handler with the stale row after the bad record has been taken from its queue.\<close>

definition after_bad :: "int SnowflakeHandler" where
  "after_bad = loaded_handler\<lparr>log_queue := \<lparr>maxsize = 0, items = [], unfinished_tasks = 1\<rparr>\<rparr>"

definition queued_handler :: "int SnowflakeHandler" where
  "queued_handler =
     started_handler
       \<lparr>log_queue := \<lparr>maxsize = 0, items = [example_record ''app''], unfinished_tasks = 1\<rparr>\<rparr>"

text \<open>
  A tick ten seconds after the start of the worker, with a healthy sink and no arrivals;
  and one three seconds after the start.
\<close>

definition late_tick :: "int tick" where
  "late_tick = \<lparr>arrivals = [], now = 10, sink_of = healthy_sink\<rparr>"

definition early_tick :: "int tick" where
  "early_tick = \<lparr>arrivals = [], now = 3, sink_of = healthy_sink\<rparr>"

text \<open>Ten records of ten application loggers, none of them named \<open>snowflake...\<close>.\<close>

definition ten_records :: "int LogRecord list" where
  "ten_records =
     map example_record
       [''app0'', ''app1'', ''app2'', ''app3'', ''app4'',
        ''app5'', ''app6'', ''app7'', ''app8'', ''app9'']"

lemmas example_defs =
  example_config_def both_config_def neither_config_def started_handler_def healthy_sink_def
  failing_sink_def unreachable_sink_def example_record_def other_thread_record_def
  bad_record_def example_row_def loaded_handler_def disconnected_handler_def
  stale_handler_def full_handler_def after_bad_def queued_handler_def late_tick_def early_tick_def
  new_Queue_def

section \<open>Properties of a flush\<close>

lemma flush_connected_batch: "batch (fst (flush_connected snk c h)) = []"
  by (simp add: flush_connected_def split: prod.splits option.splits)

lemma flush_batch_batch: "batch (fst (flush_batch snk h)) = []"
  by (simp add: flush_batch_def flush_connected_batch Let_def split: option.splits)

lemma flush_try_one_executemany:
  "length (filter is_executemany (snd (flush_try snk c h))) \<le> Suc 0"
  by (simp add: flush_try_def Let_def split: option.splits)

lemma flush_connected_one_executemany:
  "length (filter is_executemany (snd (flush_connected snk c h))) \<le> Suc 0"
  using flush_try_one_executemany [of snk c h]
  by (auto simp: flush_connected_def split: prod.splits option.splits)

lemma handler_connect_no_executemany:
  "filter is_executemany (snd (handler_connect snk h)) = []"
  by (simp add: handler_connect_def split: sum.splits)

lemma flush_batch_one_executemany:
  "length (filter is_executemany (snd (flush_batch snk h))) \<le> Suc 0"
  by (auto simp: flush_batch_def Let_def handler_connect_no_executemany
      flush_connected_one_executemany split: option.splits)

text \<open>
  C1. Whatever the sink answers to a flush (the insert succeeds, a call of the \<open>try\<close> block
  raises, or no connection is obtained), the batch is empty after \<open>_flush_batch\<close>; a second
  flush of that state, whatever the sink would answer, makes no call at all and changes
  nothing; and one flush calls \<open>executemany\<close> at most once. So the rows of a batch are
  handed to the sink at most once.
\<close>

theorem flush_batch_at_most_once:
  "batch (fst (flush_batch snk h)) = []
   \<and> flush_batch snk' (fst (flush_batch snk h)) = (fst (flush_batch snk h), [])
   \<and> length (filter is_executemany (snd (flush_batch snk h))) \<le> 1"
proof -
  have b: "batch (fst (flush_batch snk h)) = []"
    by (rule flush_batch_batch)
  have "flush_batch snk' (fst (flush_batch snk h)) = (fst (flush_batch snk h), [])"
    using b by (simp add: flush_batch_def [of snk'])
  with b flush_batch_one_executemany [of snk h] show ?thesis
    by simp
qed

text \<open>
  C10. With an empty batch \<open>_flush_batch\<close> returns at once: no \<open>connect\<close>, no
  \<open>executemany\<close>, no other call, and the handler (its connection included) is as before.
\<close>

theorem flush_batch_empty_noop:
  "batch h = [] \<Longrightarrow> flush_batch snk h = (h, [])"
  by (simp add: flush_batch_def)

theorem flush_batch_empty_noop_witness:
  "batch (started_handler\<lparr>connection := None\<rparr>) = []
   \<and> flush_batch healthy_sink (started_handler\<lparr>connection := None\<rparr>)
       = (started_handler\<lparr>connection := None\<rparr>, [])"
  using flush_batch_empty_noop [of "started_handler\<lparr>connection := None\<rparr>" healthy_sink]
  by (simp add: started_handler_def)

section \<open>Properties of emit\<close>

lemma emit_try_only_Full: "emit_try h r = Inl e \<Longrightarrow> e = Full"
  by (auto simp: emit_try_def put_nowait_def split: if_splits sum.splits)

text \<open>
  C6. For every record and every handler state, the queue full or not, \<open>emit\<close> returns
  normally: its result is never an exception. (\<open>put_nowait\<close> does not wait.)
\<close>

theorem emit_returns_normally:
  "\<exists>h'. emit h r = Inr h'"
  by (auto simp: emit_def handleError_def split: sum.splits exn.splits)

text \<open>
  C7, as the code has it. The filter of line 261 is a prefix test: a record whose logger
  name starts with \<open>snowflake\<close> (the name itself or any longer one) leaves the handler as
  it is; every other record is handed to \<open>put_nowait\<close>, and on the queue that \<open>__init__\<close>
  builds (no bound) it is appended behind the queued ones.
\<close>

theorem emit_filters_snowflake_prefix:
  "(startswith (name r) ''snowflake'' \<longrightarrow> emit h r = Inr h)
   \<and> (\<not> startswith (name r) ''snowflake'' \<longrightarrow>
        emit h r = (case put_nowait (log_queue h) r of
                      Inl e \<Rightarrow> Inr h
                    | Inr q \<Rightarrow> Inr (h\<lparr>log_queue := q\<rparr>)))
   \<and> (\<not> startswith (name r) ''snowflake'' \<and> maxsize (log_queue h) \<le> 0 \<longrightarrow>
        (\<exists>h'. emit h r = Inr h' \<and> items (log_queue h') = items (log_queue h) @ [r]))"
  by (auto simp: emit_def emit_try_def handleError_def put_nowait_def
      split: sum.splits exn.splits)

theorem emit_filters_snowflake_prefix_witness:
  "startswith (name (example_record ''snowflake.connector'' :: int LogRecord)) ''snowflake''
   \<and> emit started_handler (example_record ''snowflake.connector'') = Inr started_handler
   \<and> \<not> startswith (name (example_record ''app'' :: int LogRecord)) ''snowflake''
   \<and> maxsize (log_queue started_handler) \<le> 0
   \<and> emit started_handler (example_record ''app'')
       = Inr (started_handler\<lparr>log_queue :=
                \<lparr>maxsize = 0, items = [example_record ''app''], unfinished_tasks = 1\<rparr>\<rparr>)"
  using emit_filters_snowflake_prefix [of "example_record ''snowflake.connector''" started_handler]
    emit_filters_snowflake_prefix [of "example_record ''app''" started_handler]
  by (simp add: example_defs startswith_def put_nowait_def)

text \<open>
  C7 as stated fails. A record of the logger \<open>snowflake.connector\<close>, whose name is not equal
  to \<open>snowflake\<close>, is not delegated to the queue: \<open>emit\<close> returns with the handler unchanged.
  And a record of the root logger, through which the handler's own messages go (it calls
  \<open>logging.info\<close>, \<open>logging.error\<close>, ... of the module), is queued like any other.
\<close>

theorem emit_filter_not_by_equality:
  "''snowflake.connector'' \<noteq> ''snowflake''
   \<and> emit started_handler (example_record ''snowflake.connector'') = Inr started_handler
   \<and> emit started_handler (example_record ''root'')
       = Inr (started_handler\<lparr>log_queue :=
                \<lparr>maxsize = 0, items = [example_record ''root''], unfinished_tasks = 1\<rparr>\<rparr>)"
  by (simp add: example_defs startswith_def put_nowait_def emit_def emit_try_def)

section \<open>The queue has no bound\<close>

lemma emit_unbounded:
  "maxsize (log_queue h) \<le> 0 \<Longrightarrow> \<not> startswith (name r) ''snowflake'' \<Longrightarrow>
   emit h r = Inr (h\<lparr>log_queue := (log_queue h)\<lparr>items := items (log_queue h) @ [r],
                         unfinished_tasks := unfinished_tasks (log_queue h) + 1\<rparr>\<rparr>)"
  by (simp add: emit_def emit_try_def put_nowait_def)

lemma emit_all_unbounded:
  "maxsize (log_queue h) \<le> 0 \<Longrightarrow> \<forall>r \<in> set rs. \<not> startswith (name r) ''snowflake'' \<Longrightarrow>
   \<exists>h'. emit_all h rs = Inr h' \<and> items (log_queue h') = items (log_queue h) @ rs
        \<and> maxsize (log_queue h') = maxsize (log_queue h)"
proof (induction rs arbitrary: h)
  case Nil
  then show ?case by simp
next
  case (Cons r rs)
  let ?h1 = "h\<lparr>log_queue := (log_queue h)\<lparr>items := items (log_queue h) @ [r],
                         unfinished_tasks := unfinished_tasks (log_queue h) + 1\<rparr>\<rparr>"
  have e: "emit h r = Inr ?h1"
    using Cons.prems by (simp add: emit_unbounded)
  have "maxsize (log_queue ?h1) \<le> 0"
    using Cons.prems by simp
  moreover have "\<forall>r \<in> set rs. \<not> startswith (name r) ''snowflake''"
    using Cons.prems by simp
  ultimately obtain h' where "emit_all ?h1 rs = Inr h'"
    "items (log_queue h') = items (log_queue ?h1) @ rs"
    "maxsize (log_queue h') = maxsize (log_queue ?h1)"
    using Cons.IH [of ?h1] by blast
  then show ?case
    using e by simp
qed

lemma init_queue:
  "init available cfg hn snk = Inr (h, effs) \<Longrightarrow>
   maxsize (log_queue h) = 0 \<and> items (log_queue h) = []"
  by (auto simp: init_def Let_def handler_connect_def start_worker_def new_Queue_def
      split: if_splits sum.splits)

lemma init_example:
  "init True example_config ''host1'' healthy_sink =
     Inr (started_handler,
          [Connect [(''account'', ''acct''), (''user'', ''svc''), (''database'', ''LOG_DB''),
                    (''schema'', ''RAW''), (''warehouse'', ''LOG_WH''), (''password'', ''pw'')],
           Log INFO (Connected ''password'' ''LOG_DB'' ''RAW''),
           ThreadStart, Log INFO WorkerStarted])"
  by (simp add: init_def example_defs handler_connect_def start_worker_def conn_params_def Let_def)

text \<open>
  C2, as the code has it. \<open>__init__\<close> builds the queue as \<open>queue.Queue()\<close>, which has no
  capacity (\<open>maxsize = 0\<close>), and it is empty. On a queue with no bound, submitting any
  records whose names do not start with \<open>snowflake\<close> returns normally each time and leaves
  the queue holding the records it held followed by all the submitted ones, in order: none
  is dropped and none evicted. Only on a queue with a positive bound that holds that many
  records does \<open>emit\<close> drop the incoming record, returning normally with the handler and
  its queue unchanged.
\<close>

theorem emit_queue_unbounded:
  "(init available cfg hn snk = Inr (h0, effs) \<longrightarrow>
      maxsize (log_queue h0) = 0 \<and> items (log_queue h0) = [])
   \<and> (maxsize (log_queue h) \<le> 0 \<and> (\<forall>r \<in> set rs. \<not> startswith (name r) ''snowflake'') \<longrightarrow>
        (\<exists>h'. emit_all h rs = Inr h' \<and> items (log_queue h') = items (log_queue h) @ rs))
   \<and> (maxsize (log_queue h) > 0
        \<and> int (length (items (log_queue h))) \<ge> maxsize (log_queue h) \<longrightarrow>
        emit h r = Inr h)"
proof -
  have a: "init available cfg hn snk = Inr (h0, effs) \<longrightarrow>
      maxsize (log_queue h0) = 0 \<and> items (log_queue h0) = []"
    using init_queue by blast
  have b: "maxsize (log_queue h) \<le> 0 \<and> (\<forall>r \<in> set rs. \<not> startswith (name r) ''snowflake'') \<longrightarrow>
        (\<exists>h'. emit_all h rs = Inr h' \<and> items (log_queue h') = items (log_queue h) @ rs)"
    using emit_all_unbounded [of h rs] by blast
  have c: "maxsize (log_queue h) > 0
        \<and> int (length (items (log_queue h))) \<ge> maxsize (log_queue h) \<longrightarrow>
        emit h r = Inr h"
    by (simp add: emit_def emit_try_def put_nowait_def)
  from a b c show ?thesis
    by blast
qed

theorem emit_queue_unbounded_witness:
  "init True example_config ''host1'' healthy_sink =
     Inr (started_handler,
          [Connect [(''account'', ''acct''), (''user'', ''svc''), (''database'', ''LOG_DB''),
                    (''schema'', ''RAW''), (''warehouse'', ''LOG_WH''), (''password'', ''pw'')],
           Log INFO (Connected ''password'' ''LOG_DB'' ''RAW''),
           ThreadStart, Log INFO WorkerStarted])
   \<and> maxsize (log_queue started_handler) = 0 \<and> items (log_queue started_handler) = []
   \<and> (\<exists>h'. emit_all started_handler ten_records = Inr h' \<and> items (log_queue h') = ten_records)
   \<and> maxsize (log_queue full_handler) > 0
   \<and> int (length (items (log_queue full_handler))) \<ge> maxsize (log_queue full_handler)
   \<and> emit full_handler (example_record ''d'') = Inr full_handler"
proof -
  have i: "init True example_config ''host1'' healthy_sink =
     Inr (started_handler,
          [Connect [(''account'', ''acct''), (''user'', ''svc''), (''database'', ''LOG_DB''),
                    (''schema'', ''RAW''), (''warehouse'', ''LOG_WH''), (''password'', ''pw'')],
           Log INFO (Connected ''password'' ''LOG_DB'' ''RAW''),
           ThreadStart, Log INFO WorkerStarted])"
    by (rule init_example)
  have n: "\<forall>r \<in> set ten_records. \<not> startswith (name r) ''snowflake''"
    by (simp add: ten_records_def example_defs startswith_def)
  have f: "maxsize (log_queue full_handler) > 0
     \<and> int (length (items (log_queue full_handler))) \<ge> maxsize (log_queue full_handler)"
    by (simp add: example_defs)
  have m: "maxsize (log_queue started_handler) \<le> 0"
    by (simp add: example_defs)
  note t1 = emit_queue_unbounded [of True example_config "''host1''" healthy_sink
      started_handler _ started_handler ten_records "example_record ''d''"]
  note t2 = emit_queue_unbounded [of True example_config "''host1''" healthy_sink
      started_handler _ full_handler "[]" "example_record ''d''"]
  from i n f m t1 t2 show ?thesis
    by (simp add: example_defs)
qed

text \<open>
  C2 as stated fails: the handler that \<open>__init__\<close> builds has a queue without capacity,
  and with the worker not running ten submitted records are all retained, not at most 3.
\<close>

theorem ten_submits_retain_ten:
  "init True example_config ''host1'' healthy_sink =
     Inr (started_handler,
          [Connect [(''account'', ''acct''), (''user'', ''svc''), (''database'', ''LOG_DB''),
                    (''schema'', ''RAW''), (''warehouse'', ''LOG_WH''), (''password'', ''pw'')],
           Log INFO (Connected ''password'' ''LOG_DB'' ''RAW''),
           ThreadStart, Log INFO WorkerStarted])
   \<and> emit_all started_handler ten_records
       = Inr (started_handler\<lparr>log_queue :=
                \<lparr>maxsize = 0, items = ten_records, unfinished_tasks = 10\<rparr>\<rparr>)
   \<and> length ten_records = 10
   \<and> \<not> length ten_records \<le> 3"
  by (simp add: init_def example_defs ten_records_def startswith_def put_nowait_def
      emit_def emit_try_def handler_connect_def start_worker_def conn_params_def Let_def)

section \<open>Rows\<close>

text \<open>
  C5, as the code has it. In every row that \<open>_format_record\<close> builds, the column \<open>host\<close>
  is the handler's own \<open>hostname\<close> (read once, in \<open>__init__\<close>), while the columns
  \<open>process_id\<close> and \<open>thread_name\<close> are the fields \<open>process\<close> and \<open>threadName\<close> of the
  record being formatted.
\<close>

theorem format_record_identifiers:
  "format_record h r = Inr rw \<Longrightarrow>
   host rw = hostname h \<and> process_id rw = process r \<and> thread_name rw = threadName r"
  by (auto simp: format_record_def Let_def split: sum.splits)

theorem format_record_identifiers_witness:
  "format_record started_handler (example_record ''app'') = Inr example_row
   \<and> host example_row = hostname started_handler
   \<and> process_id example_row = process (example_record ''app'' :: int LogRecord)
   \<and> thread_name example_row = threadName (example_record ''app'' :: int LogRecord)"
proof -
  have f: "format_record started_handler (example_record ''app'') = Inr example_row"
    by (simp add: format_record_def example_defs)
  from f format_record_identifiers [OF f] show ?thesis
    by simp
qed

text \<open>
  C5 as stated fails: the same handler formats two records that differ only in their
  \<open>process\<close> and \<open>threadName\<close> into rows with different \<open>process_id\<close> and \<open>thread_name\<close>;
  these two columns come from the event.
\<close>

theorem process_and_thread_from_record:
  "format_record started_handler (example_record ''app'') = Inr example_row
   \<and> format_record started_handler other_thread_record
       = Inr (example_row\<lparr>process_id := Some 7, thread_name := Some ''producer-3''\<rparr>)
   \<and> process_id example_row \<noteq> Some 7
   \<and> thread_name example_row \<noteq> Some ''producer-3''"
  by (simp add: format_record_def example_defs)

section \<open>Construction\<close>

text \<open>
  C8, as the code has it (with the connector installed). \<open>__init__\<close> raises the
  \<open>ValueError\<close> exactly when neither a non-empty password nor a non-empty token is given,
  and it builds a handler exactly when at least one of the two is given. When a token is
  given (with or without a password) the connection is asked for with the token and the
  authenticator \<open>oauth\<close>, and with no \<open>password\<close> entry.
\<close>

theorem init_credentials:
  "(init True cfg hn snk = Inl (ValueError ''Either password or token must be provided''))
     = (\<not> truthy (password cfg) \<and> \<not> truthy (token cfg))
   \<and> ((truthy (password cfg) \<or> truthy (token cfg))
        = (\<exists>h effs. init True cfg hn snk = Inr (h, effs)))
   \<and> (truthy (token cfg) \<longrightarrow>
        (\<exists>h effs. init True cfg hn snk = Inr (h, effs)
           \<and> hd effs = Connect ([(''account'', account cfg), (''user'', user cfg),
                 (''database'', database cfg), (''schema'', schema cfg),
                 (''warehouse'', warehouse cfg),
                 (''token'', the (token cfg)), (''authenticator'', ''oauth'')]
                 @ (if truthy (role cfg) then [(''role'', the (role cfg))] else []))))"
  by (auto simp: init_def Let_def handler_connect_def start_worker_def conn_params_def
      split: sum.splits)

theorem init_credentials_witness:
  "truthy (token both_config) \<and> truthy (password both_config)
   \<and> init True both_config ''host1'' healthy_sink
      = Inr (started_handler\<lparr>token := Some ''tok''\<rparr>,
          [Connect [(''account'', ''acct''), (''user'', ''svc''), (''database'', ''LOG_DB''),
                    (''schema'', ''RAW''), (''warehouse'', ''LOG_WH''), (''token'', ''tok''),
                    (''authenticator'', ''oauth'')],
           Log INFO (Connected ''PAT'' ''LOG_DB'' ''RAW''),
           ThreadStart, Log INFO WorkerStarted])
   \<and> init True neither_config ''host1'' healthy_sink
      = Inl (ValueError ''Either password or token must be provided'')"
  using init_credentials [of both_config "''host1''" healthy_sink]
    init_credentials [of neither_config "''host1''" healthy_sink]
  by (simp add: init_def example_defs handler_connect_def start_worker_def conn_params_def
      Let_def)

text \<open>
  C8 as stated fails: a configuration that gives both a password and a token is accepted;
  \<open>__init__\<close> returns a started handler, connected with the token.
\<close>

theorem init_accepts_both_credentials:
  "truthy (password both_config) \<and> truthy (token both_config)
   \<and> init True both_config ''host1'' healthy_sink
      = Inr (started_handler\<lparr>token := Some ''tok''\<rparr>,
          [Connect [(''account'', ''acct''), (''user'', ''svc''), (''database'', ''LOG_DB''),
                    (''schema'', ''RAW''), (''warehouse'', ''LOG_WH''), (''token'', ''tok''),
                    (''authenticator'', ''oauth'')],
           Log INFO (Connected ''PAT'' ''LOG_DB'' ''RAW''),
           ThreadStart, Log INFO WorkerStarted])"
  by (simp add: init_def example_defs handler_connect_def start_worker_def conn_params_def
      Let_def)

section \<open>A failed insert\<close>

lemma flush_connected_exec_fails:
  "cursor_result snk = None \<Longrightarrow> executemany_result snk = Some e \<Longrightarrow>
   flush_connected snk c h =
     (h\<lparr>batch := [], connection := None\<rparr>,
      [Cursor c, ExecuteMany c (table_name h) (map dump_metadata (batch h)),
       Log ERROR (FlushFailed e)])"
  by (simp add: flush_connected_def flush_try_def)

lemma flush_connected_ok:
  "cursor_result snk = None \<Longrightarrow> executemany_result snk = None \<Longrightarrow>
   cursor_close_result snk = None \<Longrightarrow>
   flush_connected snk c h =
     (h\<lparr>batch := []\<rparr>,
      [Cursor c, ExecuteMany c (table_name h) (map dump_metadata (batch h)), CursorClose c,
       Log DEBUG (Flushed (length (batch h)))])"
  by (simp add: flush_connected_def flush_try_def)

text \<open>
  C4. Take a flush of a non-empty batch that reaches \<open>executemany\<close> (on the connection it
  has, or on the one a reconnect has just given) and in which \<open>executemany\<close> raises \<open>e\<close>.
  Then the flush ends with the one call of \<open>executemany\<close> followed by the error message for
  \<open>e\<close> and nothing else (no second \<open>executemany\<close>, no \<open>connect\<close> after the failure), and it
  leaves the batch empty and the connection \<open>None\<close>. The next flush that has rows to
  deliver (batch \<open>b\<close>, queue \<open>q\<close> as the worker has left them) starts with a call of
  \<open>connect\<close>; and when that reconnect and the insert succeed, it calls \<open>executemany\<close> once, on
  the new connection, with exactly the rows of \<open>b\<close>, and empties the batch.
\<close>

theorem executemany_failure_invalidates_connection:
  assumes "batch h \<noteq> []"
    and "connection h = Some c \<or> (connection h = None \<and> connect_result snk = Inr c)"
    and "cursor_result snk = None"
    and "executemany_result snk = Some e"
  shows "flush_batch snk h =
           (h\<lparr>batch := [], connection := None\<rparr>,
            (if connection h = None
             then [Connect (conn_params h),
                   Log INFO (Connected (if truthy (token h) then ''PAT'' else ''password'')
                               (database h) (schema h))]
             else [])
            @ [Cursor c, ExecuteMany c (table_name h) (map dump_metadata (batch h)),
               Log ERROR (FlushFailed e)])
         \<and> (b \<noteq> [] \<longrightarrow>
              hd (snd (flush_batch snk2
                         ((fst (flush_batch snk h))\<lparr>batch := b, log_queue := q\<rparr>)))
                = Connect (conn_params h))
         \<and> (b \<noteq> [] \<and> connect_result snk2 = Inr c2 \<and> cursor_result snk2 = None
              \<and> executemany_result snk2 = None \<and> cursor_close_result snk2 = None \<longrightarrow>
              flush_batch snk2 ((fst (flush_batch snk h))\<lparr>batch := b, log_queue := q\<rparr>)
                = (h\<lparr>batch := [], log_queue := q, connection := Some c2\<rparr>,
                   [Connect (conn_params h),
                    Log INFO (Connected (if truthy (token h) then ''PAT'' else ''password'')
                               (database h) (schema h)),
                    Cursor c2, ExecuteMany c2 (table_name h) (map dump_metadata b),
                    CursorClose c2, Log DEBUG (Flushed (length b))]))"
proof -
  have 1: "flush_batch snk h =
           (h\<lparr>batch := [], connection := None\<rparr>,
            (if connection h = None
             then [Connect (conn_params h),
                   Log INFO (Connected (if truthy (token h) then ''PAT'' else ''password'')
                               (database h) (schema h))]
             else [])
            @ [Cursor c, ExecuteMany c (table_name h) (map dump_metadata (batch h)),
               Log ERROR (FlushFailed e)])"
    using assms
    by (auto simp: flush_batch_def handler_connect_def flush_connected_exec_fails Let_def
        conn_params_def)
  let ?h2 = "(fst (flush_batch snk h))\<lparr>batch := b, log_queue := q\<rparr>"
  have h2: "?h2 = h\<lparr>batch := b, connection := None, log_queue := q\<rparr>"
    by (simp add: 1)
  have 2: "b \<noteq> [] \<longrightarrow> hd (snd (flush_batch snk2 ?h2)) = Connect (conn_params h)"
    unfolding h2
    by (auto simp: flush_batch_def handler_connect_def Let_def conn_params_def
        split: sum.splits option.splits)
  have 3: "b \<noteq> [] \<and> connect_result snk2 = Inr c2 \<and> cursor_result snk2 = None
              \<and> executemany_result snk2 = None \<and> cursor_close_result snk2 = None \<longrightarrow>
              flush_batch snk2 ?h2
                = (h\<lparr>batch := [], log_queue := q, connection := Some c2\<rparr>,
                   [Connect (conn_params h),
                    Log INFO (Connected (if truthy (token h) then ''PAT'' else ''password'')
                               (database h) (schema h)),
                    Cursor c2, ExecuteMany c2 (table_name h) (map dump_metadata b),
                    CursorClose c2, Log DEBUG (Flushed (length b))])"
    unfolding h2
    by (auto simp: flush_batch_def handler_connect_def flush_connected_ok Let_def
        conn_params_def)
  from 1 2 3 show ?thesis
    by blast
qed

theorem executemany_failure_invalidates_connection_witness:
  "batch loaded_handler \<noteq> [] \<and> connection loaded_handler = Some 1
   \<and> cursor_result failing_sink = None
   \<and> executemany_result failing_sink = Some (SinkError ''insert failed'')
   \<and> flush_batch failing_sink loaded_handler
       = (started_handler\<lparr>connection := None\<rparr>,
          [Cursor 1, ExecuteMany 1 ''app_logs'' [example_row],
           Log ERROR (FlushFailed (SinkError ''insert failed''))])
   \<and> hd (snd (flush_batch unreachable_sink
        ((fst (flush_batch failing_sink loaded_handler))
           \<lparr>batch := [example_row\<lparr>message := ''later''\<rparr>], log_queue := new_Queue 0\<rparr>)))
       = Connect [(''account'', ''acct''), (''user'', ''svc''), (''database'', ''LOG_DB''),
                    (''schema'', ''RAW''), (''warehouse'', ''LOG_WH''), (''password'', ''pw'')]
   \<and> flush_batch (healthy_sink\<lparr>connect_result := Inr 2\<rparr>)
        ((fst (flush_batch failing_sink loaded_handler))
           \<lparr>batch := [example_row\<lparr>message := ''later''\<rparr>], log_queue := new_Queue 0\<rparr>)
       = (started_handler\<lparr>connection := Some 2\<rparr>,
          [Connect [(''account'', ''acct''), (''user'', ''svc''), (''database'', ''LOG_DB''),
                    (''schema'', ''RAW''), (''warehouse'', ''LOG_WH''), (''password'', ''pw'')],
           Log INFO (Connected ''password'' ''LOG_DB'' ''RAW''),
           Cursor 2, ExecuteMany 2 ''app_logs'' [example_row\<lparr>message := ''later''\<rparr>],
           CursorClose 2, Log DEBUG (Flushed 1)])"
proof -
  let ?b = "[example_row\<lparr>message := ''later''\<rparr>]"
  let ?h2 = "(fst (flush_batch failing_sink loaded_handler))\<lparr>batch := ?b, log_queue := new_Queue 0\<rparr>"
  let ?ok = "healthy_sink\<lparr>connect_result := Inr 2\<rparr>"
  have a: "batch loaded_handler \<noteq> []" by (simp add: example_defs)
  have b: "connection loaded_handler = Some 1
      \<or> (connection loaded_handler = None \<and> connect_result failing_sink = Inr 1)"
    by (simp add: example_defs)
  have b': "connection loaded_handler = Some 1" by (simp add: example_defs)
  have c: "cursor_result failing_sink = None" by (simp add: example_defs)
  have d: "executemany_result failing_sink = Some (SinkError ''insert failed'')"
    by (simp add: example_defs)
  have p: "?b \<noteq> [] \<and> connect_result ?ok = Inr 2 \<and> cursor_result ?ok = None
      \<and> executemany_result ?ok = None \<and> cursor_close_result ?ok = None"
    by (simp add: example_defs)
  note t1 = executemany_failure_invalidates_connection [OF a b c d, of ?b unreachable_sink "new_Queue 0" 2]
  note t2 = executemany_failure_invalidates_connection [OF a b c d, of ?b ?ok "new_Queue 0" 2]
  from t1 have "flush_batch failing_sink loaded_handler =
           (loaded_handler\<lparr>batch := [], connection := None\<rparr>,
            (if connection loaded_handler = None
             then [Connect (conn_params loaded_handler),
                   Log INFO (Connected (if truthy (token loaded_handler) then ''PAT'' else ''password'')
                               (database loaded_handler) (schema loaded_handler))]
             else [])
            @ [Cursor 1, ExecuteMany 1 (table_name loaded_handler)
                 (map dump_metadata (batch loaded_handler)),
               Log ERROR (FlushFailed (SinkError ''insert failed''))])"
    by blast
  also have "\<dots> = (started_handler\<lparr>connection := None\<rparr>,
          [Cursor 1, ExecuteMany 1 ''app_logs'' [example_row],
           Log ERROR (FlushFailed (SinkError ''insert failed''))])"
    by (simp add: example_defs dump_metadata_def)
  finally have e1: "flush_batch failing_sink loaded_handler
       = (started_handler\<lparr>connection := None\<rparr>,
          [Cursor 1, ExecuteMany 1 ''app_logs'' [example_row],
           Log ERROR (FlushFailed (SinkError ''insert failed''))])" .
  from t1 p have "hd (snd (flush_batch unreachable_sink ?h2)) = Connect (conn_params loaded_handler)"
    by blast
  also have "\<dots> = Connect [(''account'', ''acct''), (''user'', ''svc''), (''database'', ''LOG_DB''),
                    (''schema'', ''RAW''), (''warehouse'', ''LOG_WH''), (''password'', ''pw'')]"
    by (simp add: example_defs conn_params_def)
  finally have e2: "hd (snd (flush_batch unreachable_sink ?h2))
     = Connect [(''account'', ''acct''), (''user'', ''svc''), (''database'', ''LOG_DB''),
                    (''schema'', ''RAW''), (''warehouse'', ''LOG_WH''), (''password'', ''pw'')]" .
  from t2 p have "flush_batch ?ok ?h2
                = (loaded_handler\<lparr>batch := [], log_queue := new_Queue 0, connection := Some 2\<rparr>,
                   [Connect (conn_params loaded_handler),
                    Log INFO (Connected (if truthy (token loaded_handler) then ''PAT'' else ''password'')
                               (database loaded_handler) (schema loaded_handler)),
                    Cursor 2, ExecuteMany 2 (table_name loaded_handler) (map dump_metadata ?b),
                    CursorClose 2, Log DEBUG (Flushed (length ?b))])"
    by blast
  also have "\<dots> = (started_handler\<lparr>connection := Some 2\<rparr>,
          [Connect [(''account'', ''acct''), (''user'', ''svc''), (''database'', ''LOG_DB''),
                    (''schema'', ''RAW''), (''warehouse'', ''LOG_WH''), (''password'', ''pw'')],
           Log INFO (Connected ''password'' ''LOG_DB'' ''RAW''),
           Cursor 2, ExecuteMany 2 ''app_logs'' ?b,
           CursorClose 2, Log DEBUG (Flushed 1)])"
    by (simp add: example_defs conn_params_def dump_metadata_def)
  finally have e3: "flush_batch ?ok ?h2 = (started_handler\<lparr>connection := Some 2\<rparr>,
          [Connect [(''account'', ''acct''), (''user'', ''svc''), (''database'', ''LOG_DB''),
                    (''schema'', ''RAW''), (''warehouse'', ''LOG_WH''), (''password'', ''pw'')],
           Log INFO (Connected ''password'' ''LOG_DB'' ''RAW''),
           Cursor 2, ExecuteMany 2 ''app_logs'' ?b,
           CursorClose 2, Log DEBUG (Flushed 1)])" .
  from a b' c d e1 e2 e3 show ?thesis
    by blast
qed

section \<open>The worker loop\<close>

text \<open>Nothing that the worker or a producer does changes \<open>running\<close>.\<close>

lemma emit_running: "emit h r = Inr h' \<Longrightarrow> running h' = running h"
  by (auto simp: emit_def emit_try_def handleError_def put_nowait_def
      split: sum.splits exn.splits if_splits)

lemma submit_arrivals_running: "running (submit_arrivals h rs) = running h"
proof (induction rs arbitrary: h)
  case Nil
  then show ?case by simp
next
  case (Cons r rs)
  then show ?case
    by (cases "emit h r") (auto dest: emit_running)
qed

lemma dequeue_step_running: "running (snd (dequeue_step h)) = running h"
  by (simp add: dequeue_step_def split: sum.splits prod.splits)

lemma flush_connected_running: "running (fst (flush_connected snk c h)) = running h"
  by (simp add: flush_connected_def split: prod.splits option.splits)

lemma handler_connect_running: "running (fst (handler_connect snk h)) = running h"
  by (simp add: handler_connect_def split: sum.splits)

lemma flush_batch_running: "running (fst (flush_batch snk h)) = running h"
  by (simp add: flush_batch_def Let_def flush_connected_running handler_connect_running
      split: option.splits)

lemma flush_check_running: "running (fst (fst (flush_check t s))) = running (fst s)"
  by (simp add: flush_check_def Let_def flush_batch_running)

lemma worker_try_running:
  "running (fst (fst (snd (worker_try t s)))) = running (fst s)"
  using dequeue_step_running [of "fst s"]
  by (auto simp: worker_try_def flush_check_running split: prod.splits option.splits exn.splits)

lemma worker_iteration_running:
  "running (fst (fst (worker_iteration t s))) = running (fst s)"
  using worker_try_running [of t s]
  by (auto simp: worker_iteration_def split: prod.splits option.splits)

lemma worker_loop_never_exits:
  "running (fst s) \<Longrightarrow> \<exists>s' effs'. worker_loop ts s effs = Looping s' effs' \<and> running (fst s')"
proof (induction ts arbitrary: s effs)
  case Nil
  then show ?case by simp
next
  case (Cons t ts)
  let ?s1 = "(submit_arrivals (fst s) (arrivals t), snd s)"
  have "running (fst (fst (worker_iteration t ?s1)))"
    using Cons.prems by (simp add: worker_iteration_running submit_arrivals_running)
  from Cons.IH [OF this] Cons.prems show ?case
    by (simp add: Let_def)
qed

text \<open>
  C9. When an exception \<open>e\<close> leaves the \<open>try\<close> block of an iteration, the iteration ends
  with the error message for \<open>e\<close> and a sleep of one second, and \<open>running\<close> is as before.
  In the loop, with \<open>running\<close> true, such an iteration is followed by the rest of the
  loop on the following ticks: the loop does not return (it is still looping, with
  \<open>running\<close> true, when the ticks are used up).
\<close>

theorem worker_survives_exception:
  "(worker_try t s = (Some e, s', effs) \<longrightarrow>
      worker_iteration t s = (s', effs @ [Log ERROR (WorkerError e), Sleep 1])
      \<and> running (fst s') = running (fst s))
   \<and> (running (fst s0)
        \<and> worker_try t (submit_arrivals (fst s0) (arrivals t), snd s0) = (Some e, s', effs) \<longrightarrow>
        worker_loop (t # ts) s0 acc
          = worker_loop ts s' (acc @ effs @ [Log ERROR (WorkerError e), Sleep 1])
        \<and> (\<exists>s'' effs''. worker_loop (t # ts) s0 acc = Looping s'' effs'' \<and> running (fst s'')))"
proof -
  have 1: "worker_try t s = (Some e, s', effs) \<longrightarrow>
      worker_iteration t s = (s', effs @ [Log ERROR (WorkerError e), Sleep 1])
      \<and> running (fst s') = running (fst s)"
    using worker_try_running [of t s] by (auto simp: worker_iteration_def)
  have 2: "worker_loop (t # ts) s0 acc
          = worker_loop ts s' (acc @ effs @ [Log ERROR (WorkerError e), Sleep 1])
        \<and> (\<exists>s'' effs''. worker_loop (t # ts) s0 acc = Looping s'' effs'' \<and> running (fst s''))"
    if r: "running (fst s0)"
      and w: "worker_try t (submit_arrivals (fst s0) (arrivals t), snd s0) = (Some e, s', effs)"
  proof -
    have step: "worker_loop (t # ts) s0 acc
          = worker_loop ts s' (acc @ effs @ [Log ERROR (WorkerError e), Sleep 1])"
      using r w by (simp add: worker_iteration_def Let_def)
    show ?thesis
      using step worker_loop_never_exits [OF r, of "t # ts" acc] by simp
  qed
  from 1 2 show ?thesis by blast
qed

lemma worker_try_stale:
  "worker_try late_tick (stale_handler, 0)
     = (Some (TypeError ''%d format: a real number is required, not str''), (after_bad, 0), [])"
  by (simp add: worker_try_def dequeue_step_def get_timeout_def format_record_def
      example_defs)

theorem worker_survives_exception_witness:
  "running (fst (stale_handler, 0::int))
   \<and> worker_try late_tick (stale_handler, 0)
     = (Some (TypeError ''%d format: a real number is required, not str''), (after_bad, 0), [])
   \<and> worker_iteration late_tick (stale_handler, 0)
     = ((after_bad, 0),
        [Log ERROR (WorkerError (TypeError ''%d format: a real number is required, not str'')),
         Sleep 1])
   \<and> running after_bad
   \<and> worker_loop [late_tick, late_tick] (stale_handler, 0) []
     = worker_loop [late_tick] (after_bad, 0)
        [Log ERROR (WorkerError (TypeError ''%d format: a real number is required, not str'')),
         Sleep 1]
   \<and> (\<exists>s'' effs''. worker_loop [late_tick, late_tick] (stale_handler, 0) [] = Looping s'' effs''
         \<and> running (fst s''))"
proof -
  have r: "running (fst (stale_handler, 0::int))" by (simp add: example_defs)
  have w: "worker_try late_tick (stale_handler, 0)
     = (Some (TypeError ''%d format: a real number is required, not str''), (after_bad, 0), [])"
    by (rule worker_try_stale)
  have w': "worker_try late_tick
      (submit_arrivals (fst (stale_handler, 0::int)) (arrivals late_tick), snd (stale_handler, 0::int))
     = (Some (TypeError ''%d format: a real number is required, not str''), (after_bad, 0), [])"
    using w by (simp add: late_tick_def)
  note t = worker_survives_exception [of late_tick "(stale_handler, 0)"
      "TypeError ''%d format: a real number is required, not str''" "(after_bad, 0)" "[]"
      "(stale_handler, 0)" "[late_tick]" "[]"]
  from t w have i1: "worker_iteration late_tick (stale_handler, 0)
     = ((after_bad, 0),
        [Log ERROR (WorkerError (TypeError ''%d format: a real number is required, not str'')),
         Sleep 1])"
    by simp
  from t w r have i2: "running after_bad"
    by simp
  from t r w' have l1: "worker_loop [late_tick, late_tick] (stale_handler, 0) []
     = worker_loop [late_tick] (after_bad, 0)
        ([] @ [] @ [Log ERROR (WorkerError (TypeError ''%d format: a real number is required, not str'')),
         Sleep 1])"
    by blast
  from t r w' have l2: "\<exists>s'' effs''.
      worker_loop [late_tick, late_tick] (stale_handler, 0) [] = Looping s'' effs''
         \<and> running (fst s'')"
    by blast
  from l1 have l1': "worker_loop [late_tick, late_tick] (stale_handler, 0) []
     = worker_loop [late_tick] (after_bad, 0)
        [Log ERROR (WorkerError (TypeError ''%d format: a real number is required, not str'')),
         Sleep 1]"
    by (simp del: worker_loop.simps)
  from r w i1 i2 l1' l2 show ?thesis
    by blast
qed

section \<open>The flush condition\<close>

lemma dequeue_step_timeout: "items (log_queue h) = [] \<Longrightarrow> dequeue_step h = (Some Empty, h)"
  by (simp add: dequeue_step_def get_timeout_def)

lemma dequeue_step_event:
  "items (log_queue h) = r # rs \<Longrightarrow> format_record h r = Inr rw \<Longrightarrow>
   unfinished_tasks (log_queue h) \<ge> 1 \<Longrightarrow>
   dequeue_step h =
     (None, h\<lparr>log_queue := (log_queue h)\<lparr>items := rs,
                      unfinished_tasks := unfinished_tasks (log_queue h) - 1\<rparr>,
              batch := batch h @ [rw]\<rparr>)"
  by (simp add: dequeue_step_def get_timeout_def task_done_def Let_def)

lemma worker_iteration_no_exception:
  "fst (dequeue_step h) = None \<or> fst (dequeue_step h) = Some Empty \<Longrightarrow>
   worker_iteration t (h, lf) =
       (let h1 = snd (dequeue_step h) in
        if int (length (batch h1)) \<ge> batch_size h1
           \<or> (batch h1 \<noteq> [] \<and> now t - lf \<ge> flush_interval h1)
        then ((fst (flush_batch (sink_of t) h1), now t), snd (flush_batch (sink_of t) h1))
        else ((h1, lf), []))"
  by (cases "dequeue_step h")
     (auto simp: worker_iteration_def worker_try_def flush_check_def should_flush_def Let_def)

text \<open>
  C3, as the code has it. In an iteration in which lines 133 to 135 raise nothing but
  \<open>queue.Empty\<close> (the dequeue times out, or it gives an event that is formatted and
  appended), \<open>_flush_batch\<close> is applied, and \<open>last_flush\<close> set to the time just read, if and
  only if the batch has at least \<open>batch_size\<close> rows, or it is not empty and the time read
  minus \<open>last_flush\<close> is at least \<open>flush_interval\<close>; otherwise nothing happens. A timeout is
  such an iteration, and so is an event whose formatting succeeds.
\<close>

theorem flush_iff_trigger_without_exception:
  "(fst (dequeue_step h) = None \<or> fst (dequeue_step h) = Some Empty \<longrightarrow>
     worker_iteration t (h, lf) =
       (let h1 = snd (dequeue_step h) in
        if int (length (batch h1)) \<ge> batch_size h1
           \<or> (batch h1 \<noteq> [] \<and> now t - lf \<ge> flush_interval h1)
        then ((fst (flush_batch (sink_of t) h1), now t), snd (flush_batch (sink_of t) h1))
        else ((h1, lf), [])))
   \<and> (items (log_queue h) = [] \<longrightarrow> dequeue_step h = (Some Empty, h))
   \<and> (items (log_queue h) = r # rs \<and> format_record h r = Inr rw
        \<and> unfinished_tasks (log_queue h) \<ge> 1 \<longrightarrow>
        dequeue_step h =
          (None, h\<lparr>log_queue := (log_queue h)\<lparr>items := rs,
                           unfinished_tasks := unfinished_tasks (log_queue h) - 1\<rparr>,
                   batch := batch h @ [rw]\<rparr>))"
  using worker_iteration_no_exception [of h t lf] dequeue_step_timeout [of h]
    dequeue_step_event [of h r rs rw]
  by blast

theorem flush_iff_trigger_without_exception_witness:
  "items (log_queue loaded_handler) = []
   \<and> fst (dequeue_step loaded_handler) = Some Empty
   \<and> worker_iteration late_tick (loaded_handler, 0)
       = ((started_handler, 10),
          [Cursor 1, ExecuteMany 1 ''app_logs'' [example_row], CursorClose 1,
           Log DEBUG (Flushed 1)])
   \<and> worker_iteration early_tick (loaded_handler, 0) = ((loaded_handler, 0), [])
   \<and> items (log_queue queued_handler) = [example_record ''app'']
   \<and> format_record queued_handler (example_record ''app'') = Inr example_row
   \<and> unfinished_tasks (log_queue queued_handler) \<ge> 1
   \<and> dequeue_step queued_handler = (None, loaded_handler)"
proof -
  have i: "items (log_queue loaded_handler) = []"
    by (simp add: example_defs)
  note t1 = flush_iff_trigger_without_exception
    [of loaded_handler late_tick 0 "example_record ''app''" "[]" example_row]
  note t2 = flush_iff_trigger_without_exception
    [of loaded_handler early_tick 0 "example_record ''app''" "[]" example_row]
  note t3 = flush_iff_trigger_without_exception
    [of queued_handler late_tick 0 "example_record ''app''" "[]" example_row]
  from t1 i have d: "dequeue_step loaded_handler = (Some Empty, loaded_handler)"
    by blast
  then have d1: "fst (dequeue_step loaded_handler) = Some Empty"
    by simp
  from t1 d1 have "worker_iteration late_tick (loaded_handler, 0) =
       (let h1 = snd (dequeue_step loaded_handler) in
        if int (length (batch h1)) \<ge> batch_size h1
           \<or> (batch h1 \<noteq> [] \<and> now late_tick - 0 \<ge> flush_interval h1)
        then ((fst (flush_batch (sink_of late_tick) h1), now late_tick),
              snd (flush_batch (sink_of late_tick) h1))
        else ((h1, 0), []))"
    by blast
  also have "\<dots> = ((started_handler, 10),
          [Cursor 1, ExecuteMany 1 ''app_logs'' [example_row], CursorClose 1,
           Log DEBUG (Flushed 1)])"
    by (simp add: d)
      (simp add: example_defs flush_batch_def flush_connected_def flush_try_def
        dump_metadata_def)
  finally have a: "worker_iteration late_tick (loaded_handler, 0)
       = ((started_handler, 10),
          [Cursor 1, ExecuteMany 1 ''app_logs'' [example_row], CursorClose 1,
           Log DEBUG (Flushed 1)])" .
  from t2 d1 have "worker_iteration early_tick (loaded_handler, 0) =
       (let h1 = snd (dequeue_step loaded_handler) in
        if int (length (batch h1)) \<ge> batch_size h1
           \<or> (batch h1 \<noteq> [] \<and> now early_tick - 0 \<ge> flush_interval h1)
        then ((fst (flush_batch (sink_of early_tick) h1), now early_tick),
              snd (flush_batch (sink_of early_tick) h1))
        else ((h1, 0), []))"
    by blast
  also have "\<dots> = ((loaded_handler, 0), [])"
    by (simp add: d) (simp add: example_defs)
  finally have b: "worker_iteration early_tick (loaded_handler, 0) = ((loaded_handler, 0), [])" .
  have q1: "items (log_queue queued_handler) = [example_record ''app'']"
    by (simp add: example_defs)
  have q2: "format_record queued_handler (example_record ''app'') = Inr example_row"
    by (simp add: format_record_def example_defs)
  have q3: "unfinished_tasks (log_queue queued_handler) \<ge> 1"
    by (simp add: example_defs)
  from t3 q1 q2 q3 have "dequeue_step queued_handler =
          (None, queued_handler\<lparr>log_queue := (log_queue queued_handler)\<lparr>items := [],
                           unfinished_tasks := unfinished_tasks (log_queue queued_handler) - 1\<rparr>,
                   batch := batch queued_handler @ [example_row]\<rparr>)"
    by blast
  also have "\<dots> = (None, loaded_handler)"
    by (simp add: example_defs)
  finally have c: "dequeue_step queued_handler = (None, loaded_handler)" .
  from i d1 a b q1 q2 q3 c show ?thesis
    by blast
qed

text \<open>
  C3 as stated fails. The worker takes from the queue a record whose \<open>getMessage()\<close>
  raises. After this dequeue attempt the batch is not empty and more than \<open>flush_interval\<close>
  has passed since the last flush, yet the iteration makes no flush: it logs the error,
  sleeps, and leaves the batch and \<open>last_flush\<close> as they were.
\<close>

theorem no_flush_check_when_formatting_raises:
  "dequeue_step stale_handler
     = (Some (TypeError ''%d format: a real number is required, not str''), after_bad)
   \<and> batch after_bad = [example_row]
   \<and> now late_tick - 0 \<ge> flush_interval after_bad
   \<and> worker_iteration late_tick (stale_handler, 0)
       = ((after_bad, 0),
          [Log ERROR (WorkerError (TypeError ''%d format: a real number is required, not str'')),
           Sleep 1])"
  by (simp add: worker_iteration_def worker_try_def dequeue_step_def get_timeout_def
      format_record_def example_defs)

end
